theory Spec2Isabelle
  imports Main
begin

section \<open>Python values, exceptions and responses\<close>

text \<open>
  The service (\<^verbatim>\<open>src/python/main.py\<close>) is two Flask view functions,
  \<^verbatim>\<open>extract_powerpoint\<close> and \<^verbatim>\<open>update_powerpoint\<close>, over the object model of the
  python-pptx library. A view function either returns a response or lets an exception
  escape; the latter is the \<open>Inl\<close> of its result, the former the \<open>Inr\<close>.
  An exception carries what \<^verbatim>\<open>str(e)\<close> prints: for a \<^verbatim>\<open>KeyError\<close> the quoted key.
\<close>

datatype exn =
    KeyError string
  | IndexError string
  | AttributeError string
  | LibraryError string

fun str_exn :: "exn \<Rightarrow> string" where
  "str_exn (KeyError k) = [CHR 0x27] @ k @ [CHR 0x27]"
| "str_exn (IndexError m) = m"
| "str_exn (AttributeError m) = m"
| "str_exn (LibraryError m) = m"

text \<open>
  The JSON bodies, at the schema of the interface table: a dictionary is a record whose
  fields are optional (\<open>None\<close>: the key is absent). The value of \<^verbatim>\<open>original_file\<close> is a
  string or JSON \<^verbatim>\<open>null\<close>.
\<close>

datatype json_string = JNull | JStr string

record extract_request =
  file_data :: "string option"

record slide_data =
  title :: "string option"
  bullets :: "string list option"
  content :: "string list option"

record instructions =
  outline_slides :: "slide_data list option"

record update_request =
  original_file :: "json_string option"
  update_instructions :: "instructions option"
  file_name :: "string option"

record slide_content =
  slide_number :: nat
  title_text :: string
  content_texts :: "string list"

text \<open>
  \<open>Json_slides\<close> is \<^verbatim>\<open>jsonify({"slides": ...})\<close>, \<open>Json_error m c\<close> is
  \<^verbatim>\<open>jsonify({"error": m}), c\<close> and \<open>Send_file\<close> is \<^verbatim>\<open>send_file\<close> with the stream, the
  download name and the MIME type.
\<close>

datatype 'b response =
    Json_slides "slide_content list"
  | Json_error string nat
  | Send_file 'b string string

section \<open>The document object model\<close>

text \<open>
  A shape is a placeholder when it has a placeholder index; it has a text frame or not
  (pictures, graphic frames and connectors have none). A slide is its shape tree, a layout
  the indices of the placeholders that \<^verbatim>\<open>add_slide\<close> clones onto a new slide, a
  presentation its slide list and its layout gallery. Removing entry 0 of the slide-id
  list together with its relationship removes the head of the slide list.
\<close>

record shape =
  ph_idx :: "nat option"
  text_frame :: "string option"

record slide =
  shapes :: "shape list"

record slide_layout =
  cloned_idx :: "nat list"

record presentation =
  slides :: "slide list"
  slide_layouts :: "slide_layout list"

text \<open>
  What the service takes from its libraries without looking inside: base64 decoding,
  opening a package from bytes, the default template of \<^verbatim>\<open>Presentation()\<close>, and saving.
  \<open>'b\<close> is the type of byte strings.
\<close>

record 'b library =
  b64decode :: "string \<Rightarrow> exn + 'b"
  Presentation_bytes :: "'b \<Rightarrow> exn + presentation"
  Presentation_default :: presentation
  save :: "presentation \<Rightarrow> exn + 'b"

definition is_ph :: "nat \<Rightarrow> shape \<Rightarrow> bool" where
  "is_ph i e = (ph_idx e = Some i)"

text \<open>\<^verbatim>\<open>slide.shapes.title\<close>: the first placeholder whose index is 0, if any.\<close>

definition title_elm :: "slide \<Rightarrow> shape option" where
  "title_elm s = find (is_ph 0) (shapes s)"

text \<open>
  \<^verbatim>\<open>len(slide.placeholders)\<close> counts the placeholder shapes; \<^verbatim>\<open>slide.placeholders[i]\<close>
  looks a placeholder up by its index \<open>i\<close> (a key, not a position) and raises
  \<^verbatim>\<open>KeyError\<close> when the slide has none.
\<close>

definition placeholders_len :: "slide \<Rightarrow> nat" where
  "placeholders_len s = length (filter (\<lambda>e. ph_idx e \<noteq> None) (shapes s))"

fun decimal :: "nat \<Rightarrow> string" where
  "decimal n =
     (if n < 10 then [''0123456789'' ! n]
      else decimal (n div 10) @ [''0123456789'' ! (n mod 10)])"

declare decimal.simps [simp del]

definition placeholders_getitem :: "slide \<Rightarrow> nat \<Rightarrow> exn + shape" where
  "placeholders_getitem s i =
     (case find (is_ph i) (shapes s) of
        None \<Rightarrow> Inl (KeyError (''no placeholder on this slide with idx == '' @ decimal i))
      | Some e \<Rightarrow> Inr e)"

text \<open>
  Assigning \<^verbatim>\<open>.text\<close> replaces the text of the shape's text frame. The library keeps
  tab, line feed and vertical tab (the last two as paragraph and line breaks, which read
  back as themselves) and writes every other control character below 0x20 as the seven
  characters \<^verbatim>\<open>_xHHHH_\<close> (\<^verbatim>\<open>"_x%04X_" % ord(c)\<close>); reading \<^verbatim>\<open>.text\<close> gives the stored
  string. On a shape without a text frame the assignment does not reach the document.
\<close>

definition hex_digit :: "nat \<Rightarrow> char" where
  "hex_digit n = ''0123456789ABCDEF'' ! (n mod 16)"

definition escaped :: "char \<Rightarrow> bool" where
  "escaped c = (of_char c < (9 :: nat) \<or> ((11 :: nat) < of_char c \<and> of_char c < (32 :: nat)))"

definition escape_char :: "char \<Rightarrow> string" where
  "escape_char c =
     (if escaped c
      then ''_x00'' @ [hex_digit (of_char c div 16), hex_digit (of_char c mod 16)] @ ''_''
      else [c])"

definition escape_ctrl :: "string \<Rightarrow> string" where
  "escape_ctrl t = concat (map escape_char t)"

text \<open>A string that the library stores as it is: none of its characters is escaped.\<close>

definition plain_text :: "string \<Rightarrow> bool" where
  "plain_text t = list_all (\<lambda>c. \<not> escaped c) t"

definition set_text :: "string \<Rightarrow> shape \<Rightarrow> shape" where
  "set_text t e =
     (case text_frame e of None \<Rightarrow> e | Some _ \<Rightarrow> e\<lparr>text_frame := Some (escape_ctrl t)\<rparr>)"

fun update_first :: "('a \<Rightarrow> bool) \<Rightarrow> ('a \<Rightarrow> 'a) \<Rightarrow> 'a list \<Rightarrow> 'a list" where
  "update_first P f [] = []"
| "update_first P f (x # xs) = (if P x then f x # xs else x # update_first P f xs)"

definition set_placeholder_text :: "nat \<Rightarrow> string \<Rightarrow> slide \<Rightarrow> slide" where
  "set_placeholder_text i t s = s\<lparr>shapes := update_first (is_ph i) (set_text t) (shapes s)\<rparr>"

text \<open>The text of the placeholder with index \<open>i\<close>, read back from a slide.\<close>

definition placeholder_text :: "slide \<Rightarrow> nat \<Rightarrow> string option" where
  "placeholder_text s i = (case find (is_ph i) (shapes s) of None \<Rightarrow> None | Some e \<Rightarrow> text_frame e)"

text \<open>
  \<^verbatim>\<open>prs.slides.add_slide(layout)\<close> makes a slide holding one empty text placeholder per
  cloned layout placeholder.
\<close>

definition clone_placeholder :: "nat \<Rightarrow> shape" where
  "clone_placeholder i = \<lparr>ph_idx = Some i, text_frame = Some []\<rparr>"

definition add_slide :: "slide_layout \<Rightarrow> slide" where
  "add_slide layout = \<lparr>shapes = map clone_placeholder (cloned_idx layout)\<rparr>"

definition layouts_getitem :: "slide_layout list \<Rightarrow> nat \<Rightarrow> exn + slide_layout" where
  "layouts_getitem ls i =
     (if i < length ls then Inr (ls ! i) else Inl (IndexError ''slide layout index out of range''))"

section \<open>The Extractor\<close>

text \<open>
  python-pptx hands out shapes as proxy objects over the XML elements, and builds a new
  proxy at every access: each step of iterating \<^verbatim>\<open>slide.shapes\<close> and each evaluation of
  \<^verbatim>\<open>slide.shapes.title\<close> calls the shape factory. Python's \<^verbatim>\<open>is\<close> compares the
  identity of the proxy objects, not the elements behind them. The model gives every
  proxy the next unused object identity and threads the counter through the code.
\<close>

record proxy =
  obj_id :: nat
  element :: shape

definition shape_factory :: "shape \<Rightarrow> nat \<Rightarrow> proxy \<times> nat" where
  "shape_factory e n = (\<lparr>obj_id = n, element = e\<rparr>, Suc n)"

definition shapes_title :: "slide \<Rightarrow> nat \<Rightarrow> proxy option \<times> nat" where
  "shapes_title s n =
     (case title_elm s of
        None \<Rightarrow> (None, n)
      | Some e \<Rightarrow> (case shape_factory e n of (p, n') \<Rightarrow> (Some p, n')))"

definition is_not :: "proxy \<Rightarrow> proxy option \<Rightarrow> bool" where
  "is_not p q = (case q of None \<Rightarrow> True | Some q' \<Rightarrow> obj_id p \<noteq> obj_id q')"

definition get_text :: "proxy \<Rightarrow> exn + string" where
  "get_text p =
     (case text_frame (element p) of
        None \<Rightarrow> Inl (AttributeError ''object has no attribute text'')
      | Some t \<Rightarrow> Inr t)"

text \<open>Line 26: \<^verbatim>\<open>slide.shapes.title.text if slide.shapes.title else ""\<close>.\<close>

definition slide_title :: "slide \<Rightarrow> nat \<Rightarrow> (exn + string) \<times> nat" where
  "slide_title s n =
     (case shapes_title s n of
        (None, n1) \<Rightarrow> (Inr [], n1)
      | (Some _, n1) \<Rightarrow>
          (case shapes_title s n1 of
             (None, n2) \<Rightarrow> (Inl (AttributeError ''object has no attribute text''), n2)
           | (Some p, n2) \<Rightarrow> (get_text p, n2)))"

text \<open>
  Line 27: \<^verbatim>\<open>[shape.text for shape in slide.shapes
  if shape.has_text_frame and shape is not slide.shapes.title]\<close>.
\<close>

fun slide_texts :: "slide \<Rightarrow> shape list \<Rightarrow> nat \<Rightarrow> string list \<times> nat" where
  "slide_texts s [] n = ([], n)"
| "slide_texts s (e # es) n =
     (case shape_factory e n of (sh, n1) \<Rightarrow>
        (case text_frame (element sh) of
           None \<Rightarrow> slide_texts s es n1
         | Some t \<Rightarrow>
             (case shapes_title s n1 of (ttl, n2) \<Rightarrow>
                if is_not sh ttl
                then (case slide_texts s es n2 of (rest, n3) \<Rightarrow> (t # rest, n3))
                else slide_texts s es n2)))"

text \<open>Lines 24 to 28, the dictionary of one slide; \<open>i\<close> is the index of \<^verbatim>\<open>enumerate\<close>.\<close>

definition slide_entry :: "nat \<Rightarrow> slide \<Rightarrow> nat \<Rightarrow> (exn + slide_content) \<times> nat" where
  "slide_entry i s n =
     (case slide_title s n of
        (Inl e, n1) \<Rightarrow> (Inl e, n1)
      | (Inr t, n1) \<Rightarrow>
          (case slide_texts s (shapes s) n1 of (c, n2) \<Rightarrow>
             (Inr \<lparr>slide_number = i + 1, title_text = t, content_texts = c\<rparr>, n2)))"

text \<open>Lines 22 to 29, the loop over \<^verbatim>\<open>prs.slides\<close>.\<close>

fun slides_content :: "nat \<Rightarrow> slide list \<Rightarrow> nat \<Rightarrow> exn + slide_content list" where
  "slides_content i [] n = Inr []"
| "slides_content i (s # ss) n =
     (case slide_entry i s n of
        (Inl e, n1) \<Rightarrow> Inl e
      | (Inr c, n1) \<Rightarrow>
          (case slides_content (Suc i) ss n1 of
             Inl e \<Rightarrow> Inl e
           | Inr cs \<Rightarrow> Inr (c # cs)))"

text \<open>Lines 21 to 31, the body of the \<^verbatim>\<open>try\<close>.\<close>

definition extract_body :: "'b library \<Rightarrow> 'b \<Rightarrow> exn + slide_content list" where
  "extract_body L raw =
     (case Presentation_bytes L raw of
        Inl e \<Rightarrow> Inl e
      | Inr prs \<Rightarrow> slides_content 0 (slides prs) 0)"

text \<open>
  Lines 17 to 33. The key access and the base64 decoding of line 18 stand before the
  \<^verbatim>\<open>try\<close> of line 20.
\<close>

definition extract_powerpoint :: "'b library \<Rightarrow> extract_request \<Rightarrow> exn + 'b response" where
  "extract_powerpoint L data =
     (case file_data data of
        None \<Rightarrow> Inl (KeyError ''file_data'')
      | Some s \<Rightarrow>
          (case b64decode L s of
             Inl e \<Rightarrow> Inl e
           | Inr raw \<Rightarrow>
               (case extract_body L raw of
                  Inl e \<Rightarrow> Inr (Json_error (str_exn e) 500)
                | Inr cs \<Rightarrow> Inr (Json_slides cs))))"

section \<open>The Synthesizer\<close>

text \<open>
  The \<^verbatim>\<open>print\<close> calls of the handler do not change its result and are left out.

  \<^verbatim>\<open>str.strip()\<close> removes leading and trailing white space; characters are code points
  below 256.
\<close>

definition isspace :: "char \<Rightarrow> bool" where
  "isspace c = (of_char c \<in> {9, 10, 11, 12, 13, 28, 29, 30, 31, 32, 133, 160 :: nat})"

definition strip :: "string \<Rightarrow> string" where
  "strip s = rev (dropWhile isspace (rev (dropWhile isspace s)))"

text \<open>Line 38: \<^verbatim>\<open>data.get('original_file')\<close> is \<^verbatim>\<open>None\<close> for a missing key and for null.\<close>

definition get_original_file :: "update_request \<Rightarrow> string option" where
  "get_original_file data =
     (case original_file data of None \<Rightarrow> None | Some JNull \<Rightarrow> None | Some (JStr s) \<Rightarrow> Some s)"

text \<open>Line 40: \<^verbatim>\<open>data.get('file_name', 'presentation.pptx')\<close>.\<close>

definition get_file_name :: "update_request \<Rightarrow> string" where
  "get_file_name data = (case file_name data of None \<Rightarrow> ''presentation.pptx'' | Some f \<Rightarrow> f)"

text \<open>
  Line 44: \<^verbatim>\<open>original_file and original_file != 'null' and original_file.strip()\<close>.
\<close>

datatype mode = Update string | Create

definition select_mode :: "string option \<Rightarrow> mode" where
  "select_mode f =
     (case f of
        None \<Rightarrow> Create
      | Some s \<Rightarrow> if s \<noteq> [] \<and> s \<noteq> ''null'' \<and> strip s \<noteq> [] then Update s else Create)"

text \<open>Lines 52 to 58: the default template, without its first slide if it has one.\<close>

definition create_presentation :: "'b library \<Rightarrow> presentation" where
  "create_presentation L =
     (let prs = Presentation_default L
      in if length (slides prs) > 0 then prs\<lparr>slides := tl (slides prs)\<rparr> else prs)"

text \<open>Lines 44 to 59.\<close>

definition open_presentation :: "'b library \<Rightarrow> string option \<Rightarrow> exn + presentation" where
  "open_presentation L f =
     (case select_mode f of
        Update s \<Rightarrow>
          (case b64decode L s of
             Inl e \<Rightarrow> Inl e
           | Inr raw \<Rightarrow> Presentation_bytes L raw)
      | Create \<Rightarrow> Inr (create_presentation L))"

text \<open>
  Lines 69 to 77: the index that the chain of conditions subscripts the gallery with, as
  a function of the gallery's length, and the subscription.
\<close>

definition layout_index :: "nat \<Rightarrow> nat" where
  "layout_index len =
     (if len > 1 then 1
      else if len > 0 then 0
      else (if len > 6 then 6 else 0))"

definition select_layout :: "slide_layout list \<Rightarrow> exn + slide_layout" where
  "select_layout ls = layouts_getitem ls (layout_index (length ls))"

text \<open>Lines 83 and 84.\<close>

definition set_title :: "slide_data \<Rightarrow> slide \<Rightarrow> slide" where
  "set_title sd s =
     (case title sd of
        None \<Rightarrow> s
      | Some t \<Rightarrow> (case title_elm s of None \<Rightarrow> s | Some _ \<Rightarrow> set_placeholder_text 0 t s))"

text \<open>Lines 92 to 98.\<close>

definition lines_of_content :: "slide_data \<Rightarrow> string list" where
  "lines_of_content sd =
     (case content sd of None \<Rightarrow> [] | Some cs \<Rightarrow> if cs \<noteq> [] then cs else [])"

definition content_lines :: "slide_data \<Rightarrow> string list" where
  "content_lines sd =
     (case bullets sd of
        None \<Rightarrow> lines_of_content sd
      | Some bs \<Rightarrow> if bs \<noteq> [] then bs else lines_of_content sd)"

text \<open>\<^verbatim>\<open>sep.join(xs)\<close>.\<close>

fun join :: "string \<Rightarrow> string list \<Rightarrow> string" where
  "join sep [] = []"
| "join sep [x] = x"
| "join sep (x # y # ys) = x @ sep @ join sep (y # ys)"

text \<open>Lines 88 to 101.\<close>

definition set_content :: "slide_data \<Rightarrow> slide \<Rightarrow> exn + slide" where
  "set_content sd s =
     (if placeholders_len s > 1 then
        (case placeholders_getitem s 1 of
           Inl e \<Rightarrow> Inl e
         | Inr _ \<Rightarrow>
             (let ls = content_lines sd
              in if ls \<noteq> [] then Inr (set_placeholder_text 1 (join [CHR 0x0A] ls) s) else Inr s))
      else Inr s)"

text \<open>
  Lines 66 to 101, one round of the loop. The slide object is the one appended to the
  presentation, so the assignments after \<^verbatim>\<open>add_slide\<close> are edits of the appended slide.
\<close>

definition outline_slide :: "slide_layout \<Rightarrow> slide_data \<Rightarrow> exn + slide" where
  "outline_slide layout sd = set_content sd (set_title sd (add_slide layout))"

definition append_slide :: "presentation \<Rightarrow> slide_data \<Rightarrow> exn + presentation" where
  "append_slide prs sd =
     (case select_layout (slide_layouts prs) of
        Inl e \<Rightarrow> Inl e
      | Inr layout \<Rightarrow>
          (case outline_slide layout sd of
             Inl e \<Rightarrow> Inl e
           | Inr s \<Rightarrow> Inr (prs\<lparr>slides := slides prs @ [s]\<rparr>)))"

fun append_slides :: "presentation \<Rightarrow> slide_data list \<Rightarrow> exn + presentation" where
  "append_slides prs [] = Inr prs"
| "append_slides prs (sd # sds) =
     (case append_slide prs sd of
        Inl e \<Rightarrow> Inl e
      | Inr prs' \<Rightarrow> append_slides prs' sds)"

text \<open>Lines 44 to 101: the document that line 107 saves.\<close>

definition update_body :: "'b library \<Rightarrow> string option \<Rightarrow> instructions \<Rightarrow> exn + presentation" where
  "update_body L f ui =
     (case open_presentation L f of
        Inl e \<Rightarrow> Inl e
      | Inr prs \<Rightarrow>
          (case outline_slides ui of
             None \<Rightarrow> Inr prs
           | Some sds \<Rightarrow> append_slides prs sds))"

definition mimetype :: string where
  "mimetype = ''application/vnd.openxmlformats-officedocument.presentationml.presentation''"

text \<open>
  Lines 37 to 122. The key access of line 39 stands before the \<^verbatim>\<open>try\<close> of line 42.
\<close>

definition update_powerpoint :: "'b library \<Rightarrow> update_request \<Rightarrow> exn + 'b response" where
  "update_powerpoint L data =
     (let f = get_original_file data
      in case update_instructions data of
           None \<Rightarrow> Inl (KeyError ''update_instructions'')
         | Some ui \<Rightarrow>
             (let filename = get_file_name data
              in case (case update_body L f ui of Inl e \<Rightarrow> Inl e | Inr prs \<Rightarrow> save L prs) of
                   Inl e \<Rightarrow> Inr (Json_error (str_exn e) 500)
                 | Inr stream \<Rightarrow> Inr (Send_file stream filename mimetype)))"

section \<open>The specification's words\<close>

text \<open>
  The specification selects update mode when the existing-document field is "present,
  non-null, and non-blank": the key is there, its value is not JSON null, and the value
  has a character that is not white space.
\<close>

definition spec_update_mode :: "json_string option \<Rightarrow> bool" where
  "spec_update_mode v =
     (case v of
        None \<Rightarrow> False
      | Some JNull \<Rightarrow> False
      | Some (JStr s) \<Rightarrow> filter (\<lambda>c. \<not> isspace c) s \<noteq> [])"

text \<open>The same, with the four-letter string \<^verbatim>\<open>null\<close> counted as no document.\<close>

definition names_document :: "json_string option \<Rightarrow> bool" where
  "names_document v =
     (case v of
        None \<Rightarrow> False
      | Some JNull \<Rightarrow> False
      | Some (JStr s) \<Rightarrow> s \<noteq> ''null'' \<and> filter (\<lambda>c. \<not> isspace c) s \<noteq> [])"



text \<open>
  The specification's title of a slide: "the text of the slide's designated title region if
  one exists, else an empty string"; \<open>None\<close> when the title region carries no text.
\<close>

definition spec_title :: "slide \<Rightarrow> string option" where
  "spec_title s = (case title_elm s of None \<Rightarrow> Some [] | Some e \<Rightarrow> text_frame e)"

text \<open>Every shape of the slide has a text frame, as on the slides that \<^verbatim>\<open>add_slide\<close> makes.\<close>

definition all_text :: "slide \<Rightarrow> bool" where
  "all_text s = list_all (\<lambda>e. text_frame e \<noteq> None) (shapes s)"

section \<open>Sample data\<close>

text \<open>
  A template shaped like the library's default one (no slide, eleven layouts, the blank
  one at index 6), and a library whose byte strings are the documents themselves:
  \<open>None\<close> is a byte string that is no package, and the base64 strings that decode are
  those of a table.
\<close>

definition sample_template :: presentation where
  "sample_template =
     \<lparr>slides = [],
      slide_layouts =
        [\<lparr>cloned_idx = [0, 1]\<rparr>, \<lparr>cloned_idx = [0, 1]\<rparr>, \<lparr>cloned_idx = [0, 1]\<rparr>,
         \<lparr>cloned_idx = [0, 1, 2]\<rparr>, \<lparr>cloned_idx = [0, 1, 2, 3, 4]\<rparr>, \<lparr>cloned_idx = [0]\<rparr>,
         \<lparr>cloned_idx = []\<rparr>, \<lparr>cloned_idx = [0, 1, 2]\<rparr>, \<lparr>cloned_idx = [0, 1, 2]\<rparr>,
         \<lparr>cloned_idx = [0, 1]\<rparr>, \<lparr>cloned_idx = [0, 1]\<rparr>]\<rparr>"

definition sample_library ::
  "(string \<times> presentation option) list \<Rightarrow> presentation option library" where
  "sample_library tbl =
     \<lparr>b64decode = (\<lambda>s. case map_of tbl s of
                          None \<Rightarrow> Inl (LibraryError ''Incorrect padding'')
                        | Some raw \<Rightarrow> Inr raw),
      Presentation_bytes = (\<lambda>raw. case raw of
                          None \<Rightarrow> Inl (LibraryError ''Package not found'')
                        | Some prs \<Rightarrow> Inr prs),
      Presentation_default = sample_template,
      save = (\<lambda>prs. Inr (Some prs))\<rparr>"

definition titled_slide :: slide where
  "titled_slide =
     \<lparr>shapes = [\<lparr>ph_idx = Some 0, text_frame = Some ''T''\<rparr>,
                \<lparr>ph_idx = Some 1, text_frame = Some ''B''\<rparr>]\<rparr>"

definition titled_deck :: presentation where
  "titled_deck = \<lparr>slides = [titled_slide], slide_layouts = slide_layouts sample_template\<rparr>"

text \<open>The request of the specification's concrete scenario, and the document it yields.\<close>

definition sample_request :: update_request where
  "sample_request =
     \<lparr>original_file = None,
      update_instructions = Some \<lparr>outline_slides = Some
        [\<lparr>title = Some ''Intro'', bullets = Some [''Point 1'', ''Point 2''], content = None\<rparr>]\<rparr>,
      file_name = None\<rparr>"

definition sample_output :: presentation where
  "sample_output =
     \<lparr>slides = [\<lparr>shapes = [\<lparr>ph_idx = Some 0, text_frame = Some ''Intro''\<rparr>,
                            \<lparr>ph_idx = Some 1,
                             text_frame = Some (''Point 1'' @ [CHR 0x0A] @ ''Point 2'')\<rparr>]\<rparr>],
      slide_layouts = slide_layouts sample_template\<rparr>"

text \<open>The slide that the scenario's outline entry yields on the layout at index 1.\<close>

definition sample_slide :: slide where
  "sample_slide =
     \<lparr>shapes = [\<lparr>ph_idx = Some 0, text_frame = Some ''Intro''\<rparr>,
                \<lparr>ph_idx = Some 1,
                 text_frame = Some (''Point 1'' @ [CHR 0x0A] @ ''Point 2'')\<rparr>]\<rparr>"

text \<open>
  A library whose \<^verbatim>\<open>Presentation()\<close> seeds one slide, as the specification describes the
  constructor.
\<close>

definition seeded_library :: "presentation option library" where
  "seeded_library =
     (sample_library [])\<lparr>Presentation_default := sample_template\<lparr>slides := [titled_slide]\<rparr>\<rparr>"

text \<open>The scenario's request with an existing document, and a request without outline.\<close>

definition update_request_sample :: update_request where
  "update_request_sample = sample_request\<lparr>original_file := Some (JStr ''QUJD'')\<rparr>"





definition cr_entry :: slide_data where
  "cr_entry =
     \<lparr>title = Some (''a'' @ [CHR 0x0D] @ ''b''),
      bullets = Some [''a'' @ [CHR 0x0D] @ ''b''],
      content = None\<rparr>"

definition cr_request :: update_request where
  "cr_request =
     \<lparr>original_file = None,
      update_instructions = Some \<lparr>outline_slides = Some [cr_entry]\<rparr>,
      file_name = None\<rparr>"

definition cr_slide :: slide where
  "cr_slide =
     \<lparr>shapes = [\<lparr>ph_idx = Some 0, text_frame = Some ''a_x000D_b''\<rparr>,
                \<lparr>ph_idx = Some 1, text_frame = Some ''a_x000D_b''\<rparr>]\<rparr>"

definition cr_output :: presentation where
  "cr_output = \<lparr>slides = [cr_slide], slide_layouts = slide_layouts sample_template\<rparr>"

section \<open>Facts about the Extractor\<close>

text \<open>
  The proxy of the title is built after the proxy it is compared with, so the two are
  never the same object: the filter of line 27 keeps every shape with a text frame.
\<close>

lemma slide_texts_all:
  "fst (slide_texts s es n) = List.map_filter text_frame es"
  by (induction es arbitrary: n)
     (auto simp: shape_factory_def shapes_title_def is_not_def List.map_filter_simps
           split: option.splits prod.splits, (metis fst_conv)+)

text \<open>
  What the loop over the slides returns: one entry per slide, in order, numbered from the
  start index plus one, with the specification's title and with the texts of all shapes
  that have a text frame.
\<close>

lemma slide_title_fst:
  "fst (slide_title s n) =
     (case spec_title s of
        None \<Rightarrow> Inl (AttributeError ''object has no attribute text'')
      | Some t \<Rightarrow> Inr t)"
  by (auto simp: slide_title_def shapes_title_def shape_factory_def get_text_def spec_title_def
      split: option.splits prod.splits)

lemma slide_entry_fst:
  "fst (slide_entry i s n) =
     (case spec_title s of
        None \<Rightarrow> Inl (AttributeError ''object has no attribute text'')
      | Some t \<Rightarrow> Inr \<lparr>slide_number = i + 1, title_text = t,
                       content_texts = List.map_filter text_frame (shapes s)\<rparr>)"
proof -
  obtain r n1 where st: "slide_title s n = (r, n1)" by (cases "slide_title s n")
  obtain c n2 where sx: "slide_texts s (shapes s) n1 = (c, n2)"
    by (cases "slide_texts s (shapes s) n1")
  have c: "c = List.map_filter text_frame (shapes s)"
    using slide_texts_all [of s "shapes s" n1] sx by simp
  have r: "r = (case spec_title s of
        None \<Rightarrow> Inl (AttributeError ''object has no attribute text'')
      | Some t \<Rightarrow> Inr t)"
    using slide_title_fst [of s n] st by simp
  show ?thesis
    by (simp add: slide_entry_def st sx c r split: option.splits)
qed

lemma slides_content_Inr:
  "slides_content i ss n = Inr cs \<Longrightarrow>
   length cs = length ss \<and>
   map slide_number cs = map (\<lambda>k. k + 1) [i..<i + length ss] \<and>
   map (\<lambda>c. Some (title_text c)) cs = map spec_title ss \<and>
   map content_texts cs = map (\<lambda>s. List.map_filter text_frame (shapes s)) ss"
proof (induction ss arbitrary: i n cs)
  case Nil
  then show ?case by simp
next
  case (Cons s ss)
  obtain r n1 where se: "slide_entry i s n = (r, n1)" by (cases "slide_entry i s n")
  from Cons.prems se obtain c cs' where
    r: "r = Inr c" and rest: "slides_content (Suc i) ss n1 = Inr cs'" and cs: "cs = c # cs'"
    by (auto split: sum.splits)
  have c: "spec_title s = Some (title_text c) \<and> slide_number c = i + 1 \<and>
           content_texts c = List.map_filter text_frame (shapes s)"
    using slide_entry_fst [of i s n] se r by (auto split: option.splits)
  have up: "[i..<i + Suc (length ss)] = i # [Suc i..<Suc i + length ss]"
    using upt_conv_Cons [of i "i + Suc (length ss)"] by simp
  have "map slide_number cs' = map (\<lambda>k. k + 1) [Suc i..<Suc i + length ss]"
    using Cons.IH [OF rest] by blast
  then have num: "map slide_number cs = map (\<lambda>k. k + 1) [i..<i + length (s # ss)]"
    using c cs up by simp
  show ?case using Cons.IH [OF rest] c cs num by simp
qed

lemma slides_content_total:
  "list_all (\<lambda>s. spec_title s \<noteq> None) ss \<Longrightarrow> \<exists>cs. slides_content i ss n = Inr cs"
proof (induction ss arbitrary: i n)
  case Nil
  then show ?case by simp
next
  case (Cons s ss)
  obtain r n1 where se: "slide_entry i s n = (r, n1)" by (cases "slide_entry i s n")
  from Cons.prems obtain t where t: "spec_title s = Some t" by auto
  have "\<exists>c. r = Inr c" using slide_entry_fst [of i s n] se t by simp
  then obtain c where r: "r = Inr c" by blast
  from Cons.IH [of "Suc i" n1] Cons.prems obtain cs where
    "slides_content (Suc i) ss n1 = Inr cs" by auto
  then show ?case by (simp add: se r)
qed

section \<open>Facts about the Synthesizer\<close>

lemma dropWhile_all_Nil: "(\<forall>x\<in>set (dropWhile P xs). P x) \<longleftrightarrow> dropWhile P xs = []"
proof
  assume a: "\<forall>x\<in>set (dropWhile P xs). P x"
  show "dropWhile P xs = []"
  proof (rule ccontr)
    assume n: "dropWhile P xs \<noteq> []"
    then have "\<not> P (hd (dropWhile P xs))" by (rule hd_dropWhile)
    moreover have "hd (dropWhile P xs) \<in> set (dropWhile P xs)" using n by simp
    ultimately show False using a by blast
  qed
qed (auto dest: set_dropWhileD)

lemma strip_empty_iff: "strip s = [] \<longleftrightarrow> filter (\<lambda>c. \<not> isspace c) s = []"
proof -
  have "strip s = [] \<longleftrightarrow> (\<forall>x\<in>set (dropWhile isspace s). isspace x)"
    by (simp add: strip_def dropWhile_eq_Nil_conv)
  also have "\<dots> \<longleftrightarrow> dropWhile isspace s = []" by (rule dropWhile_all_Nil)
  also have "\<dots> \<longleftrightarrow> filter (\<lambda>c. \<not> isspace c) s = []"
    by (simp add: dropWhile_eq_Nil_conv filter_empty_conv)
  finally show ?thesis .
qed

lemma escape_ctrl_plain: "plain_text t \<Longrightarrow> escape_ctrl t = t"
  unfolding plain_text_def
  by (induction t) (auto simp: escape_ctrl_def escape_char_def)

lemma ph_idx_set_text: "ph_idx (set_text t e) = ph_idx e"
  by (simp add: set_text_def split: option.splits)

lemma is_ph_set_text: "is_ph i (set_text t e) = is_ph i e"
  by (simp add: is_ph_def ph_idx_set_text)

lemma text_frame_set_text:
  "text_frame (set_text t e) =
     (case text_frame e of None \<Rightarrow> None | Some _ \<Rightarrow> Some (escape_ctrl t))"
  by (simp add: set_text_def split: option.splits)

lemma find_update_first_same:
  "(\<And>x. P x \<Longrightarrow> P (f x)) \<Longrightarrow> find P (update_first P f xs) = map_option f (find P xs)"
  by (induction xs) auto

lemma find_update_first_other:
  "(\<And>x. P x \<Longrightarrow> \<not> Q x \<and> \<not> Q (f x)) \<Longrightarrow> find Q (update_first P f xs) = find Q xs"
  by (induction xs) auto

lemma filter_update_first:
  "(\<And>x. R (f x) = R x) \<Longrightarrow> length (filter R (update_first P f xs)) = length (filter R xs)"
  by (induction xs) auto


lemma placeholders_len_set: "placeholders_len (set_placeholder_text i t s) = placeholders_len s"
  by (simp add: placeholders_len_def set_placeholder_text_def filter_update_first ph_idx_set_text)


lemma find_is_ph_set_same:
  "find (is_ph i) (shapes (set_placeholder_text i t s)) = map_option (set_text t) (find (is_ph i) (shapes s))"
  by (simp add: set_placeholder_text_def find_update_first_same is_ph_set_text)

lemma find_is_ph_set_other:
  "i \<noteq> j \<Longrightarrow> find (is_ph j) (shapes (set_placeholder_text i t s)) = find (is_ph j) (shapes s)"
  unfolding set_placeholder_text_def
  by (simp, rule find_update_first_other) (simp add: is_ph_def ph_idx_set_text)

lemma find_all_text:
  "all_text s \<Longrightarrow> find P (shapes s) = Some e \<Longrightarrow> text_frame e \<noteq> None"
  unfolding all_text_def by (auto simp: find_Some_iff list_all_length)

lemma placeholder_text_set_same:
  "all_text s \<Longrightarrow> find (is_ph i) (shapes s) = Some e \<Longrightarrow>
   placeholder_text (set_placeholder_text i t s) i = Some (escape_ctrl t)"
  using find_all_text [of s "is_ph i" e]
  by (auto simp: placeholder_text_def find_is_ph_set_same text_frame_set_text split: option.splits)


lemma placeholders_len_add_slide: "placeholders_len (add_slide layout) = length (cloned_idx layout)"
  by (simp add: placeholders_len_def add_slide_def clone_placeholder_def)


lemma placeholders_len_set_title: "placeholders_len (set_title sd s) = placeholders_len s"
  by (simp add: set_title_def placeholders_len_set split: option.splits)

lemma set_content_Inr:
  assumes "set_content sd s0 = Inr s"
  shows "placeholders_len s = placeholders_len s0"
    and "all_text s0 \<Longrightarrow> 1 < placeholders_len s0 \<Longrightarrow> content_lines sd \<noteq> [] \<Longrightarrow>
         placeholder_text s 1 = Some (escape_ctrl (join [CHR 0x0A] (content_lines sd)))"
    and "1 < placeholders_len s0 \<Longrightarrow> content_lines sd = [] \<Longrightarrow> s = s0"
    and "find (is_ph 0) (shapes s) = find (is_ph 0) (shapes s0)"
  using assms
  by (auto simp: set_content_def Let_def placeholders_getitem_def placeholders_len_set
        placeholder_text_set_same find_is_ph_set_other
      split: if_splits option.splits sum.splits)



lemma append_slide_Inr:
  assumes "append_slide prs sd = Inr prs'"
  shows "\<exists>layout s. select_layout (slide_layouts prs) = Inr layout \<and>
           outline_slide layout sd = Inr s \<and> prs' = prs\<lparr>slides := slides prs @ [s]\<rparr>"
  using assms by (auto simp: append_slide_def split: sum.splits)

lemma sample_request_response:
  "update_powerpoint (sample_library tbl) sample_request =
     Inr (Send_file (Some sample_output) ''presentation.pptx'' mimetype)"
  by (simp add: update_powerpoint_def sample_request_def sample_output_def get_original_file_def
      get_file_name_def update_body_def open_presentation_def select_mode_def
      create_presentation_def sample_library_def sample_template_def append_slide_def
      select_layout_def layout_index_def layouts_getitem_def outline_slide_def set_content_def
      set_title_def add_slide_def clone_placeholder_def title_elm_def is_ph_def
      placeholders_len_def placeholders_getitem_def set_placeholder_text_def set_text_def
      escape_ctrl_def escape_char_def escaped_def
      content_lines_def)

lemma select_mode_names_document:
  "select_mode (get_original_file data) =
     (case original_file data of
        Some (JStr s) \<Rightarrow> if names_document (Some (JStr s)) then Update s else Create
      | _ \<Rightarrow> Create)"
  by (auto simp: select_mode_def get_original_file_def names_document_def strip_empty_iff
           split: option.splits json_string.splits)

text \<open>
  Where decoding or parsing fails inside the \<^verbatim>\<open>try\<close>, the handler answers with the
  JSON error payload and status 500.
\<close>

lemma extract_parse_failure_reported:
  "b64decode L s = Inr raw \<Longrightarrow> Presentation_bytes L raw = Inl e \<Longrightarrow>
   extract_powerpoint L \<lparr>file_data = Some s\<rparr> = Inr (Json_error (str_exn e) 500)"
  by (simp add: extract_powerpoint_def extract_body_def)

lemma update_decode_failure_reported:
  "select_mode (get_original_file data) = Update s \<Longrightarrow> b64decode L s = Inl e \<Longrightarrow>
   update_instructions data = Some ui \<Longrightarrow>
   update_powerpoint L data = Inr (Json_error (str_exn e) 500)"
  by (simp add: update_powerpoint_def update_body_def open_presentation_def)

lemma update_parse_failure_reported:
  "select_mode (get_original_file data) = Update s \<Longrightarrow> b64decode L s = Inr raw \<Longrightarrow>
   Presentation_bytes L raw = Inl e \<Longrightarrow> update_instructions data = Some ui \<Longrightarrow>
   update_powerpoint L data = Inr (Json_error (str_exn e) 500)"
  by (simp add: update_powerpoint_def update_body_def open_presentation_def)

lemma find_is_ph_clones:
  "i \<in> set xs \<Longrightarrow> find (is_ph i) (map clone_placeholder xs) = Some (clone_placeholder i)"
  by (induction xs) (auto simp: is_ph_def clone_placeholder_def)

lemma find_is_ph_add_slide:
  "i \<in> set (cloned_idx layout) \<Longrightarrow>
   find (is_ph i) (shapes (add_slide layout)) = Some (clone_placeholder i)"
  by (simp add: add_slide_def find_is_ph_clones)

lemma spec_title_set_title:
  assumes "0 \<in> set (cloned_idx layout)" and "title sd = Some t"
  shows "find (is_ph 0) (shapes (set_title sd (add_slide layout))) = Some (set_text t (clone_placeholder 0))"
  using assms find_is_ph_add_slide [of 0 layout]
  by (simp add: set_title_def title_elm_def find_is_ph_set_same)

lemma spec_title_outline_slide:
  assumes "outline_slide layout sd = Inr s" and "0 \<in> set (cloned_idx layout)"
    and "title sd = Some t"
  shows "spec_title s = Some (escape_ctrl t)"
proof -
  have sc: "set_content sd (set_title sd (add_slide layout)) = Inr s"
    using assms(1) by (simp add: outline_slide_def)
  have "find (is_ph 0) (shapes s) = Some (set_text t (clone_placeholder 0))"
    using set_content_Inr(4) [OF sc] spec_title_set_title [OF assms(2,3)] by simp
  then show ?thesis
    by (simp add: spec_title_def title_elm_def text_frame_set_text clone_placeholder_def)
qed

lemma append_slide_layouts:
  "append_slide prs sd = Inr prs' \<Longrightarrow> slide_layouts prs' = slide_layouts prs"
  by (auto dest: append_slide_Inr)

lemma append_slides_Inr:
  "append_slides prs sds = Inr prs' \<Longrightarrow>
   slide_layouts prs' = slide_layouts prs \<and>
   (\<exists>new. slides prs' = slides prs @ new \<and> length new = length sds \<and>
      (\<forall>layout. select_layout (slide_layouts prs) = Inr layout \<longrightarrow>
         list_all2 (\<lambda>sd s. outline_slide layout sd = Inr s) sds new) \<and>
      (sds \<noteq> [] \<longrightarrow> (\<exists>layout. select_layout (slide_layouts prs) = Inr layout)))"
proof (induction sds arbitrary: prs)
  case Nil
  then show ?case by simp
next
  case (Cons sd sds)
  from Cons.prems obtain p1 where a: "append_slide prs sd = Inr p1"
    and r: "append_slides p1 sds = Inr prs'"
    by (auto split: sum.splits)
  from append_slide_Inr [OF a] obtain layout s where
    sl: "select_layout (slide_layouts prs) = Inr layout" and os: "outline_slide layout sd = Inr s"
    and p1: "p1 = prs\<lparr>slides := slides prs @ [s]\<rparr>" by blast
  have lay: "slide_layouts p1 = slide_layouts prs" using p1 by simp
  from Cons.IH [OF r] obtain new where
    l2: "slide_layouts prs' = slide_layouts p1" and n: "slides prs' = slides p1 @ new"
    and len: "length new = length sds"
    and all: "\<forall>layout. select_layout (slide_layouts p1) = Inr layout \<longrightarrow>
         list_all2 (\<lambda>sd s. outline_slide layout sd = Inr s) sds new"
    by blast
  have sn: "slides prs' = slides prs @ (s # new)" using n p1 by simp
  have al: "\<forall>layout. select_layout (slide_layouts prs) = Inr layout \<longrightarrow>
         list_all2 (\<lambda>sd s. outline_slide layout sd = Inr s) (sd # sds) (s # new)"
    using all lay sl os by simp
  have ex: "\<exists>layout. select_layout (slide_layouts prs) = Inr layout" using sl by blast
  have ll: "slide_layouts prs' = slide_layouts prs" using l2 lay by simp
  show ?case
    apply (rule conjI [OF ll])
    apply (rule exI [of _ "s # new"])
    using sn al ex len apply simp
    done
qed

lemma send_file_elim:
  assumes "update_powerpoint L data = Inr (Send_file b fn m)"
  shows "\<exists>ui prs. update_instructions data = Some ui \<and>
           update_body L (get_original_file data) ui = Inr prs \<and> save L prs = Inr b \<and>
           fn = get_file_name data \<and> m = mimetype"
  using assms
  by (auto simp: update_powerpoint_def Let_def split: option.splits sum.splits)

lemma create_presentation_slides:
  "slides (create_presentation L) = tl (slides (Presentation_default L))"
  "slide_layouts (create_presentation L) = slide_layouts (Presentation_default L)"
  by (auto simp: create_presentation_def Let_def)

lemma titles_of_outline:
  "list_all2 (\<lambda>sd s. outline_slide layout sd = Inr s) sds new \<Longrightarrow>
   list_all (\<lambda>sd. title sd \<noteq> None) sds \<Longrightarrow> 0 \<in> set (cloned_idx layout) \<Longrightarrow>
   map spec_title new = map (\<lambda>sd. map_option escape_ctrl (title sd)) sds"
  by (induction rule: list_all2_induct) (auto simp: spec_title_outline_slide)

text \<open>
  When the handler sends a file: the document opens, the gallery is not empty, the
  selected layout has at most one placeholder or one with index 1, and saving succeeds.
\<close>

lemma outline_slide_total:
  assumes "length (cloned_idx layout) \<le> 1 \<or> 1 \<in> set (cloned_idx layout)"
  shows "\<exists>s. outline_slide layout sd = Inr s"
proof -
  let ?s0 = "set_title sd (add_slide layout)"
  have len: "placeholders_len ?s0 = length (cloned_idx layout)"
    by (simp add: placeholders_len_set_title placeholders_len_add_slide)
  have f: "1 \<in> set (cloned_idx layout) \<Longrightarrow> find (is_ph 1) (shapes ?s0) \<noteq> None"
    using find_is_ph_add_slide [of 1 layout]
    by (auto simp: set_title_def find_is_ph_set_other split: option.splits)
  show ?thesis
    using assms len f
    by (auto simp: outline_slide_def set_content_def placeholders_getitem_def Let_def
        split: option.splits)
qed

lemma append_slides_total:
  assumes "select_layout (slide_layouts prs) = Inr layout"
    and "length (cloned_idx layout) \<le> 1 \<or> 1 \<in> set (cloned_idx layout)"
  shows "\<exists>prs'. append_slides prs sds = Inr prs'"
  using assms(1)
proof (induction sds arbitrary: prs)
  case Nil
  then show ?case by simp
next
  case (Cons sd sds)
  from outline_slide_total [OF assms(2), of sd] obtain s where
    s: "outline_slide layout sd = Inr s" by blast
  have a: "append_slide prs sd = Inr (prs\<lparr>slides := slides prs @ [s]\<rparr>)"
    using Cons.prems s by (simp add: append_slide_def)
  have "select_layout (slide_layouts (prs\<lparr>slides := slides prs @ [s]\<rparr>)) = Inr layout"
    using Cons.prems by simp
  from Cons.IH [OF this] show ?case using a by simp
qed

lemma update_powerpoint_sends:
  assumes "update_instructions data = Some ui"
    and "open_presentation L (get_original_file data) = Inr prs"
    and "select_layout (slide_layouts prs) = Inr layout"
    and "length (cloned_idx layout) \<le> 1 \<or> 1 \<in> set (cloned_idx layout)"
    and "\<And>p. \<exists>b. save L p = Inr b"
  shows "\<exists>b. update_powerpoint L data = Inr (Send_file b (get_file_name data) mimetype)"
proof -
  obtain prs' where ub: "update_body L (get_original_file data) ui = Inr prs'"
    using assms(2) append_slides_total [OF assms(3,4)]
    by (cases "outline_slides ui") (auto simp: update_body_def)
  from assms(5) obtain b where "save L prs' = Inr b" by blast
  then show ?thesis using assms(1) ub by (simp add: update_powerpoint_def)
qed

text \<open>The sample requests, evaluated.\<close>

lemmas eval_defs =
  update_powerpoint_def get_original_file_def
  get_file_name_def update_body_def open_presentation_def select_mode_def
  create_presentation_def sample_library_def sample_template_def append_slide_def
  select_layout_def layout_index_def layouts_getitem_def outline_slide_def set_content_def
  set_title_def add_slide_def clone_placeholder_def title_elm_def is_ph_def
  placeholders_len_def placeholders_getitem_def set_placeholder_text_def set_text_def
      escape_ctrl_def escape_char_def escaped_def
  content_lines_def

lemma seeded_request_response:
  "update_powerpoint seeded_library sample_request =
     Inr (Send_file (Some sample_output) ''presentation.pptx'' mimetype)"
  by (simp add: seeded_library_def sample_request_def sample_output_def eval_defs)

lemma update_request_sample_response:
  "update_powerpoint (sample_library [(''QUJD'', Some titled_deck)]) update_request_sample =
     Inr (Send_file (Some (titled_deck\<lparr>slides := [titled_slide, sample_slide]\<rparr>))
            ''presentation.pptx'' mimetype)"
  by (simp add: update_request_sample_def sample_request_def sample_slide_def isspace_def
      strip_def titled_deck_def eval_defs)





lemma plain_titles:
  "list_all (\<lambda>sd. case title sd of None \<Rightarrow> True | Some t \<Rightarrow> plain_text t) sds \<Longrightarrow>
   map (\<lambda>sd. map_option escape_ctrl (title sd)) sds = map title sds"
  by (induction sds) (auto simp: escape_ctrl_plain split: option.splits)






lemma cr_request_response:
  "update_powerpoint (sample_library tbl) cr_request =
     Inr (Send_file (Some cr_output) ''presentation.pptx'' mimetype)"
  by (simp add: cr_request_def cr_entry_def cr_output_def cr_slide_def hex_digit_def eval_defs)

lemma extract_cr_output:
  "extract_powerpoint (sample_library [(''UEsD'', Some cr_output)]) \<lparr>file_data = Some ''UEsD''\<rparr> =
     Inr (Json_slides [\<lparr>slide_number = 1, title_text = ''a_x000D_b'',
            content_texts = [''a_x000D_b'', ''a_x000D_b'']\<rparr>])"
  by (simp add: extract_powerpoint_def extract_body_def sample_library_def cr_output_def
      cr_slide_def slide_entry_def slide_title_def shapes_title_def title_elm_def is_ph_def
      shape_factory_def get_text_def is_not_def)

lemma extract_sample_output:
  "extract_powerpoint (sample_library [(''UEsD'', Some sample_output)]) \<lparr>file_data = Some ''UEsD''\<rparr> =
     Inr (Json_slides [\<lparr>slide_number = 1, title_text = ''Intro'',
            content_texts = [''Intro'', ''Point 1'' @ [CHR 0x0A] @ ''Point 2'']\<rparr>])"
  by (simp add: extract_powerpoint_def extract_body_def sample_library_def sample_output_def
      slide_entry_def slide_title_def shapes_title_def title_elm_def is_ph_def
      shape_factory_def get_text_def is_not_def)

section \<open>The claims\<close>




text \<open>
  Claim C2. The Extractor returns one entry per slide in document order, numbered from 1,
  with the title region's text as title (the empty string without a title region), and as
  content the texts of the other text-bearing shapes, the title region never among them.
  The last part fails on the code: on a slide whose title region reads \<^verbatim>\<open>T\<close> and whose
  body reads \<^verbatim>\<open>B\<close>, the content list is \<^verbatim>\<open>["T", "B"]\<close>. The test \<^verbatim>\<open>is not\<close> of line 27
  compares proxy objects, and the two proxies are never the same object.
\<close>

theorem extract_title_in_content:
  "extract_powerpoint (sample_library [(''QUJD'', Some titled_deck)]) \<lparr>file_data = Some ''QUJD''\<rparr> =
     Inr (Json_slides [\<lparr>slide_number = 1, title_text = ''T'', content_texts = [''T'', ''B'']\<rparr>])"
  by (simp add: extract_powerpoint_def extract_body_def sample_library_def titled_deck_def
      titled_slide_def slide_entry_def slide_title_def shapes_title_def title_elm_def is_ph_def
      shape_factory_def get_text_def is_not_def)

text \<open>
  Claim C3. A request to either endpoint whose input is malformed base64, or decodes to
  bytes that are no document, gets the JSON error payload with status 500. This fails on
  the extract endpoint for malformed base64: line 18 decodes before the \<^verbatim>\<open>try\<close> of line
  20, so the exception of the decoder leaves the handler.
\<close>

theorem extract_decode_failure_escapes:
  assumes "b64decode L s = Inl e"
  shows "extract_powerpoint L \<lparr>file_data = Some s\<rparr> = Inl e"
  using assms by (simp add: extract_powerpoint_def)

theorem extract_decode_failure_escapes_witness:
  "b64decode (sample_library []) ''abc'' = Inl (LibraryError ''Incorrect padding'') \<and>
   extract_powerpoint (sample_library []) \<lparr>file_data = Some ''abc''\<rparr> = Inl (LibraryError ''Incorrect padding'')"
proof -
  have h: "b64decode (sample_library []) ''abc'' = Inl (LibraryError ''Incorrect padding'')"
    by (simp add: sample_library_def)
  show ?thesis using h extract_decode_failure_escapes [OF h] by simp
qed

text \<open>
  Claim C4. The layout of a new slide is the one at index 1 when the gallery has more than
  one layout, otherwise the one at index 0 (an \<^verbatim>\<open>IndexError\<close> on an empty gallery); the
  layout at index 6 is an alternative only where the reasoning on indices 0 and 1 fails,
  which a gallery of more than six layouts never reaches: index 6 is never selected.
\<close>

theorem layout_fallback_chain:
  "(1 < length ls \<longrightarrow> layout_index (length ls) = 1 \<and> select_layout ls = Inr (ls ! 1)) \<and>
   (length ls = 1 \<longrightarrow> layout_index (length ls) = 0 \<and> select_layout ls = Inr (ls ! 0)) \<and>
   (length ls = 0 \<longrightarrow> layout_index (length ls) = 0 \<and>
       select_layout ls = Inl (IndexError ''slide layout index out of range'')) \<and>
   (6 < length ls \<longrightarrow> select_layout ls = Inr (ls ! 1)) \<and>
   layout_index (length ls) \<noteq> 6"
  by (auto simp: layout_index_def select_layout_def layouts_getitem_def)

theorem layout_fallback_chain_witness:
  "1 < length (slide_layouts sample_template) \<and> 6 < length (slide_layouts sample_template) \<and>
   select_layout (slide_layouts sample_template) = Inr \<lparr>cloned_idx = [0, 1]\<rparr> \<and>
   length [\<lparr>cloned_idx = [0]\<rparr>] = 1 \<and>
   select_layout [\<lparr>cloned_idx = [0]\<rparr>] = Inr \<lparr>cloned_idx = [0]\<rparr> \<and>
   length ([] :: slide_layout list) = 0 \<and>
   select_layout [] = Inl (IndexError ''slide layout index out of range'')"
  using layout_fallback_chain [of "slide_layouts sample_template"]
    layout_fallback_chain [of "[\<lparr>cloned_idx = [0]\<rparr>]"]
    layout_fallback_chain [of "[]"]
  by (simp add: sample_template_def)

text \<open>
  Claim C5. In create mode with a non-empty outline, the first slide of the resulting
  document is the slide made from the first outline entry: the slide that the constructor
  seeds (at most one, as the specification describes the library) is removed before any
  slide is appended, and the slides of the saved document are exactly those made from the
  outline entries, in order.
\<close>

theorem create_mode_first_slide:
  assumes "select_mode (get_original_file data) = Create"
    and "update_instructions data = Some ui"
    and "outline_slides ui = Some (sd # sds)"
    and "length (slides (Presentation_default L)) \<le> 1"
    and "update_powerpoint L data = Inr (Send_file b fn m)"
  shows "slides (create_presentation L) = [] \<and>
    (\<exists>prs layout. save L prs = Inr b \<and>
       select_layout (slide_layouts (Presentation_default L)) = Inr layout \<and>
       outline_slide layout sd = Inr (hd (slides prs)) \<and>
       list_all2 (\<lambda>sd s. outline_slide layout sd = Inr s) (sd # sds) (slides prs))"
proof -
  have empty: "slides (create_presentation L) = []"
    using assms(4) by (cases "slides (Presentation_default L)") (auto simp: create_presentation_slides)
  from send_file_elim [OF assms(5)] assms(2) obtain prs where
    ub: "update_body L (get_original_file data) ui = Inr prs" and sv: "save L prs = Inr b"
    by auto
  have ap: "append_slides (create_presentation L) (sd # sds) = Inr prs"
    using ub assms(1,3) by (simp add: update_body_def open_presentation_def)
  from append_slides_Inr [OF ap] obtain new layout where
    n: "slides prs = slides (create_presentation L) @ new"
    and sl: "select_layout (slide_layouts (create_presentation L)) = Inr layout"
    and all: "list_all2 (\<lambda>sd s. outline_slide layout sd = Inr s) (sd # sds) new"
    by blast
  have sp: "slides prs = new" using n empty by simp
  have hd: "outline_slide layout sd = Inr (hd new)"
    using all by (cases new) auto
  show ?thesis using empty sv sl all hd sp by (auto simp: create_presentation_slides)
qed

theorem create_mode_first_slide_witness:
  "select_mode (get_original_file sample_request) = Create \<and>
   length (slides (Presentation_default seeded_library)) \<le> 1 \<and>
   slides (Presentation_default seeded_library) = [titled_slide] \<and>
   update_powerpoint seeded_library sample_request =
     Inr (Send_file (Some sample_output) ''presentation.pptx'' mimetype) \<and>
   slides (create_presentation seeded_library) = [] \<and>
   slides sample_output = [sample_slide] \<and>
   outline_slide \<lparr>cloned_idx = [0, 1]\<rparr>
     \<lparr>title = Some ''Intro'', bullets = Some [''Point 1'', ''Point 2''], content = None\<rparr> =
     Inr sample_slide"
proof -
  have m: "select_mode (get_original_file sample_request) = Create"
    by (simp add: sample_request_def get_original_file_def select_mode_def)
  have u: "update_instructions sample_request = Some \<lparr>outline_slides = Some
        [\<lparr>title = Some ''Intro'', bullets = Some [''Point 1'', ''Point 2''], content = None\<rparr>]\<rparr>"
    by (simp add: sample_request_def)
  have l: "length (slides (Presentation_default seeded_library)) \<le> 1"
    by (simp add: seeded_library_def)
  have o: "outline_slide \<lparr>cloned_idx = [0, 1]\<rparr>
     \<lparr>title = Some ''Intro'', bullets = Some [''Point 1'', ''Point 2''], content = None\<rparr> =
     Inr sample_slide"
    by (simp add: sample_slide_def eval_defs)
  show ?thesis
    using create_mode_first_slide [OF m u _ l seeded_request_response] m l o
      seeded_request_response
    by (simp add: seeded_library_def sample_output_def sample_slide_def)
qed

text \<open>
  Claim C6. In update mode the slides of the supplied document are kept unchanged and in
  their order, and the slides made from the outline come after them: the slide list of
  the saved document is the supplied one followed by one new slide per outline entry.
\<close>

theorem update_mode_preserves_slides:
  assumes "select_mode (get_original_file data) = Update s"
    and "b64decode L s = Inr raw"
    and "Presentation_bytes L raw = Inr prs0"
    and "update_instructions data = Some ui"
    and "update_powerpoint L data = Inr (Send_file b fn m)"
  shows "\<exists>prs new. save L prs = Inr b \<and> slides prs = slides prs0 @ new \<and>
           length new = (case outline_slides ui of None \<Rightarrow> 0 | Some sds \<Rightarrow> length sds) \<and>
           take (length (slides prs0)) (slides prs) = slides prs0"
proof -
  from send_file_elim [OF assms(5)] assms(4) obtain prs where
    ub: "update_body L (get_original_file data) ui = Inr prs" and sv: "save L prs = Inr b"
    by auto
  have op: "open_presentation L (get_original_file data) = Inr prs0"
    using assms(1,2,3) by (simp add: open_presentation_def)
  show ?thesis
  proof (cases "outline_slides ui")
    case None
    then have "prs = prs0" using ub op by (simp add: update_body_def)
    then show ?thesis using sv None by (intro exI [of _ prs0] exI [of _ "[]"]) simp
  next
    case (Some sds)
    then have "append_slides prs0 sds = Inr prs" using ub op by (simp add: update_body_def)
    from append_slides_Inr [OF this] obtain new where
      "slides prs = slides prs0 @ new" and "length new = length sds" by blast
    then show ?thesis using sv Some by auto
  qed
qed

theorem update_mode_preserves_slides_witness:
  "select_mode (get_original_file update_request_sample) = Update ''QUJD'' \<and>
   b64decode (sample_library [(''QUJD'', Some titled_deck)]) ''QUJD'' = Inr (Some titled_deck) \<and>
   Presentation_bytes (sample_library [(''QUJD'', Some titled_deck)]) (Some titled_deck) =
     Inr titled_deck \<and>
   update_powerpoint (sample_library [(''QUJD'', Some titled_deck)]) update_request_sample =
     Inr (Send_file (Some (titled_deck\<lparr>slides := [titled_slide, sample_slide]\<rparr>))
            ''presentation.pptx'' mimetype) \<and>
   slides titled_deck = [titled_slide]"
proof -
  let ?L = "sample_library [(''QUJD'', Some titled_deck)]"
  have m: "select_mode (get_original_file update_request_sample) = Update ''QUJD''"
    by (simp add: update_request_sample_def sample_request_def get_original_file_def
        select_mode_def strip_def isspace_def)
  have d: "b64decode ?L ''QUJD'' = Inr (Some titled_deck)" by (simp add: sample_library_def)
  have p: "Presentation_bytes ?L (Some titled_deck) = Inr titled_deck"
    by (simp add: sample_library_def)
  have u: "update_instructions update_request_sample = Some \<lparr>outline_slides = Some
        [\<lparr>title = Some ''Intro'', bullets = Some [''Point 1'', ''Point 2''], content = None\<rparr>]\<rparr>"
    by (simp add: update_request_sample_def sample_request_def)
  show ?thesis
    using update_mode_preserves_slides [OF m d p u update_request_sample_response]
      m d p update_request_sample_response
    by (simp add: titled_deck_def)
qed

text \<open>
  Claim C7, as amended. Update mode is selected exactly when the existing-document field
  is present, is a string (not JSON null) other than the four-letter string \<^verbatim>\<open>null\<close>, and
  has a character that is not white space; then the string is decoded and opened. In every
  other case create mode builds the document from the default template. The download name
  is \<^verbatim>\<open>presentation.pptx\<close> when the request has no \<^verbatim>\<open>file_name\<close>.
\<close>

theorem mode_selection:
  "(names_document (original_file data) \<longrightarrow>
      (\<exists>s. original_file data = Some (JStr s) \<and>
           select_mode (get_original_file data) = Update s \<and>
           open_presentation L (get_original_file data) =
             (case b64decode L s of Inl e \<Rightarrow> Inl e | Inr raw \<Rightarrow> Presentation_bytes L raw))) \<and>
   (\<not> names_document (original_file data) \<longrightarrow>
      select_mode (get_original_file data) = Create \<and>
      open_presentation L (get_original_file data) = Inr (create_presentation L)) \<and>
   (file_name data = None \<longrightarrow> get_file_name data = ''presentation.pptx'') \<and>
   (file_name data = None \<longrightarrow> update_powerpoint L data = Inr (Send_file b fn m) \<longrightarrow>
      fn = ''presentation.pptx'')"
proof -
  have sel: "select_mode (get_original_file data) =
     (case original_file data of
        Some (JStr s) \<Rightarrow> if names_document (Some (JStr s)) then Update s else Create
      | _ \<Rightarrow> Create)"
    by (rule select_mode_names_document)
  have a: "names_document (original_file data) \<longrightarrow>
      (\<exists>s. original_file data = Some (JStr s) \<and>
           select_mode (get_original_file data) = Update s \<and>
           open_presentation L (get_original_file data) =
             (case b64decode L s of Inl e \<Rightarrow> Inl e | Inr raw \<Rightarrow> Presentation_bytes L raw))"
    unfolding open_presentation_def sel
    by (auto simp: names_document_def split: option.splits json_string.splits)
  have b: "\<not> names_document (original_file data) \<longrightarrow>
      select_mode (get_original_file data) = Create \<and>
      open_presentation L (get_original_file data) = Inr (create_presentation L)"
    unfolding open_presentation_def sel
    by (auto simp: names_document_def split: option.splits json_string.splits)
  have c: "file_name data = None \<longrightarrow> get_file_name data = ''presentation.pptx''"
    by (simp add: get_file_name_def)
  have d: "file_name data = None \<longrightarrow> update_powerpoint L data = Inr (Send_file b fn m) \<longrightarrow>
      fn = ''presentation.pptx''"
    by (auto simp: update_powerpoint_def get_file_name_def Let_def split: option.splits sum.splits)
  from a b c d show ?thesis by blast
qed

theorem mode_selection_witness:
  "names_document (Some (JStr ''QUJD'')) \<and>
   select_mode (get_original_file (sample_request\<lparr>original_file := Some (JStr ''QUJD'')\<rparr>)) = Update ''QUJD'' \<and>
   open_presentation (sample_library [(''QUJD'', Some titled_deck)])
      (get_original_file (sample_request\<lparr>original_file := Some (JStr ''QUJD'')\<rparr>)) = Inr titled_deck \<and>
   \<not> names_document (Some (JStr ''null'')) \<and>
   select_mode (get_original_file (sample_request\<lparr>original_file := Some (JStr ''null'')\<rparr>)) = Create \<and>
   file_name sample_request = None \<and>
   update_powerpoint (sample_library []) sample_request =
     Inr (Send_file (Some sample_output) ''presentation.pptx'' mimetype)"
  using mode_selection [of "sample_request\<lparr>original_file := Some (JStr ''QUJD'')\<rparr>"
      "sample_library [(''QUJD'', Some titled_deck)]" "Some sample_output" "''presentation.pptx''" mimetype]
    mode_selection [of "sample_request\<lparr>original_file := Some (JStr ''null'')\<rparr>"
      "sample_library [(''QUJD'', Some titled_deck)]" "Some sample_output" "''presentation.pptx''" mimetype]
    mode_selection [of sample_request "sample_library []" "Some sample_output" "''presentation.pptx''" mimetype]
    sample_request_response [of "[]"]
  by (simp add: names_document_def isspace_def sample_request_def sample_library_def)

text \<open>
  Claim C7, as stated, fails: the field holding the string \<^verbatim>\<open>null\<close> is present, is not
  JSON null and is not blank, and the code selects create mode.
\<close>

theorem mode_selection_counterexample:
  "spec_update_mode (original_file \<lparr>original_file = Some (JStr ''null''), update_instructions = None, file_name = None\<rparr>) \<and>
   select_mode (get_original_file \<lparr>original_file = Some (JStr ''null''), update_instructions = None, file_name = None\<rparr>) = Create"
  by (simp add: spec_update_mode_def select_mode_def get_original_file_def isspace_def)

text \<open>
  Claim C8, as amended. Round trip: for an outline whose entries all carry titles, the
  Extractor run on the document that the Synthesizer made in create mode returns, in
  order, the outline's titles with every control character other than tab, line feed and
  vertical tab written as \<^verbatim>\<open>_xHHHH_\<close>: the titles themselves when they hold no such
  character. The library is taken to open what it saved, its constructor to seed at most
  one slide, and the selected layout to have a title placeholder.
\<close>

theorem round_trip_titles:
  assumes "select_mode (get_original_file data) = Create"
    and "update_instructions data = Some ui"
    and "outline_slides ui = Some sds"
    and "list_all (\<lambda>sd. title sd \<noteq> None) sds"
    and "length (slides (Presentation_default L)) \<le> 1"
    and "\<And>layout. select_layout (slide_layouts (Presentation_default L)) = Inr layout \<Longrightarrow>
           0 \<in> set (cloned_idx layout)"
    and "update_powerpoint L data = Inr (Send_file b fn m)"
    and "b64decode L enc = Inr b"
    and "\<And>prs. save L prs = Inr b \<Longrightarrow> Presentation_bytes L b = Inr prs"
  shows "\<exists>cs. extract_powerpoint L \<lparr>file_data = Some enc\<rparr> = Inr (Json_slides cs) \<and>
           map (\<lambda>c. Some (title_text c)) cs =
             map (\<lambda>sd. map_option escape_ctrl (title sd)) sds \<and>
           (list_all (\<lambda>sd. case title sd of None \<Rightarrow> True | Some t \<Rightarrow> plain_text t) sds \<longrightarrow>
              map (\<lambda>c. Some (title_text c)) cs = map title sds)"
proof -
  have empty: "slides (create_presentation L) = []"
    using assms(5) by (cases "slides (Presentation_default L)") (auto simp: create_presentation_slides)
  from send_file_elim [OF assms(7)] assms(2) obtain prs where
    ub: "update_body L (get_original_file data) ui = Inr prs" and sv: "save L prs = Inr b"
    by auto
  have ap: "append_slides (create_presentation L) sds = Inr prs"
    using ub assms(1,3) by (simp add: update_body_def open_presentation_def)
  from append_slides_Inr [OF ap] obtain new where
    n: "slides prs = slides (create_presentation L) @ new"
    and len: "length new = length sds"
    and all: "\<forall>layout. select_layout (slide_layouts (create_presentation L)) = Inr layout \<longrightarrow>
         list_all2 (\<lambda>sd s. outline_slide layout sd = Inr s) sds new"
    and ex: "sds \<noteq> [] \<longrightarrow> (\<exists>layout. select_layout (slide_layouts (create_presentation L)) = Inr layout)"
    by blast
  have sp: "slides prs = new" using n empty by simp
  have titles: "map spec_title new = map (\<lambda>sd. map_option escape_ctrl (title sd)) sds"
  proof (cases sds)
    case Nil
    then show ?thesis using len by simp
  next
    case (Cons sd rest)
    then obtain layout where
      sl: "select_layout (slide_layouts (Presentation_default L)) = Inr layout"
      using ex by (auto simp: create_presentation_slides)
    then have "list_all2 (\<lambda>sd s. outline_slide layout sd = Inr s) sds new"
      using all by (simp add: create_presentation_slides)
    then show ?thesis using titles_of_outline assms(4) assms(6) [OF sl] by blast
  qed
  have "list_all (\<lambda>s. spec_title s \<noteq> None) new"
  proof -
    have "\<forall>x \<in> set (map spec_title new). x \<noteq> None"
      unfolding titles using assms(4) by (auto simp: list_all_iff)
    then show ?thesis by (auto simp: list_all_iff)
  qed
  from slides_content_total [OF this, of 0 0] obtain cs where
    sc: "slides_content 0 new 0 = Inr cs" by blast
  have t: "map (\<lambda>c. Some (title_text c)) cs = map (\<lambda>sd. map_option escape_ctrl (title sd)) sds"
    using slides_content_Inr [OF sc] titles by simp
  have e: "extract_powerpoint L \<lparr>file_data = Some enc\<rparr> = Inr (Json_slides cs)"
    using assms(8) assms(9) [OF sv] sc sp by (simp add: extract_powerpoint_def extract_body_def)
  have p: "list_all (\<lambda>sd. case title sd of None \<Rightarrow> True | Some t \<Rightarrow> plain_text t) sds \<longrightarrow>
              map (\<lambda>c. Some (title_text c)) cs = map title sds"
    using t plain_titles [of sds] by simp
  show ?thesis using e t p by blast
qed

theorem round_trip_titles_witness:
  "select_mode (get_original_file sample_request) = Create \<and>
   update_powerpoint (sample_library [(''UEsD'', Some sample_output)]) sample_request =
     Inr (Send_file (Some sample_output) ''presentation.pptx'' mimetype) \<and>
   b64decode (sample_library [(''UEsD'', Some sample_output)]) ''UEsD'' = Inr (Some sample_output) \<and>
   plain_text ''Intro'' \<and>
   extract_powerpoint (sample_library [(''UEsD'', Some sample_output)]) \<lparr>file_data = Some ''UEsD''\<rparr> =
     Inr (Json_slides [\<lparr>slide_number = 1, title_text = ''Intro'',
            content_texts = [''Intro'', ''Point 1'' @ [CHR 0x0A] @ ''Point 2'']\<rparr>])"
proof -
  let ?L = "sample_library [(''UEsD'', Some sample_output)]"
  have m: "select_mode (get_original_file sample_request) = Create"
    by (simp add: sample_request_def get_original_file_def select_mode_def)
  have u: "update_instructions sample_request = Some \<lparr>outline_slides = Some
        [\<lparr>title = Some ''Intro'', bullets = Some [''Point 1'', ''Point 2''], content = None\<rparr>]\<rparr>"
    by (simp add: sample_request_def)
  have o: "outline_slides \<lparr>outline_slides = Some
        [\<lparr>title = Some ''Intro'', bullets = Some [''Point 1'', ''Point 2''], content = None\<rparr>]\<rparr> =
      Some [\<lparr>title = Some ''Intro'', bullets = Some [''Point 1'', ''Point 2''], content = None\<rparr>]"
    by simp
  have a: "list_all (\<lambda>sd. title sd \<noteq> None)
      [\<lparr>title = Some ''Intro'', bullets = Some [''Point 1'', ''Point 2''], content = None\<rparr>]"
    by simp
  have l: "length (slides (Presentation_default ?L)) \<le> 1"
    by (simp add: sample_library_def sample_template_def)
  have t: "\<And>layout. select_layout (slide_layouts (Presentation_default ?L)) = Inr layout \<Longrightarrow>
           0 \<in> set (cloned_idx layout)"
    by (auto simp: sample_library_def sample_template_def select_layout_def layout_index_def
        layouts_getitem_def)
  have d: "b64decode ?L ''UEsD'' = Inr (Some sample_output)" by (simp add: sample_library_def)
  have r: "\<And>prs. save ?L prs = Inr (Some sample_output) \<Longrightarrow>
      Presentation_bytes ?L (Some sample_output) = Inr prs"
    by (simp add: sample_library_def)
  have pl: "plain_text ''Intro''" by (simp add: plain_text_def escaped_def)
  show ?thesis
    using round_trip_titles [OF m u o a l t sample_request_response d r] m d pl
      extract_sample_output sample_request_response
    by simp
qed

text \<open>
  Claim C8, as stated, fails: the title \<^verbatim>\<open>"a\rb"\<close> comes back from the round trip as
  \<^verbatim>\<open>"a_x000D_b"\<close>.
\<close>

theorem round_trip_titles_counterexample:
  "select_mode (get_original_file cr_request) = Create \<and>
   update_instructions cr_request = Some \<lparr>outline_slides = Some [cr_entry]\<rparr> \<and>
   title cr_entry = Some (''a'' @ [CHR 0x0D] @ ''b'') \<and>
   update_powerpoint (sample_library [(''UEsD'', Some cr_output)]) cr_request =
     Inr (Send_file (Some cr_output) ''presentation.pptx'' mimetype) \<and>
   b64decode (sample_library [(''UEsD'', Some cr_output)]) ''UEsD'' = Inr (Some cr_output) \<and>
   extract_powerpoint (sample_library [(''UEsD'', Some cr_output)]) \<lparr>file_data = Some ''UEsD''\<rparr> =
     Inr (Json_slides [\<lparr>slide_number = 1, title_text = ''a_x000D_b'',
            content_texts = [''a_x000D_b'', ''a_x000D_b'']\<rparr>]) \<and>
   ''a_x000D_b'' \<noteq> ''a'' @ [CHR 0x0D] @ ''b''"
  using cr_request_response [of "[(''UEsD'', Some cr_output)]"] extract_cr_output
  by (simp add: cr_request_def cr_entry_def get_original_file_def select_mode_def
      sample_library_def)

text \<open>
  Claim C9. A request body without the key \<^verbatim>\<open>file_data\<close> (extract endpoint) or without
  the key \<^verbatim>\<open>update_instructions\<close> (update endpoint) makes the handler raise
  \<^verbatim>\<open>KeyError\<close> before its \<^verbatim>\<open>try\<close>: the exception leaves the handler and no JSON error
  payload is produced.
\<close>

theorem missing_key_escapes:
  "extract_powerpoint L (data\<lparr>file_data := None\<rparr>) = Inl (KeyError ''file_data'') \<and>
   update_powerpoint L (req\<lparr>update_instructions := None\<rparr>) = Inl (KeyError ''update_instructions'') \<and>
   extract_powerpoint L (data\<lparr>file_data := None\<rparr>) \<noteq> Inr (Json_error m c) \<and>
   update_powerpoint L (req\<lparr>update_instructions := None\<rparr>) \<noteq> Inr (Json_error m c)"
  by (simp add: extract_powerpoint_def update_powerpoint_def)

theorem missing_key_escapes_witness:
  "extract_powerpoint (sample_library []) \<lparr>file_data = None\<rparr> = Inl (KeyError ''file_data'') \<and>
   update_powerpoint (sample_library [])
     \<lparr>original_file = None, update_instructions = None, file_name = None\<rparr>
     = Inl (KeyError ''update_instructions'')"
  using missing_key_escapes [of "sample_library []" "\<lparr>file_data = None\<rparr>"
      "\<lparr>original_file = None, update_instructions = None, file_name = None\<rparr>"]
  by simp



end
